theory Spec2Isabelle
  imports Complex_Main "HOL-Library.Word"
begin

section \<open>The object highlighter and \<open>isolateObjects\<close> (src/src/main.ts, lines 94-103)\<close>

text \<open>
  \<open>scene.objectHighlighter.objectHighlightIndices\<close> is a \<open>Uint8Array\<close>: a fixed-length
  array of bytes. The object ids are JavaScript numbers; those that reach the array as
  indices are modelled as \<open>int\<close>. An element store on a typed array at an index that is
  not one of its own (negative, or at or beyond the length) is ignored: the array is never
  extended. Every call made on the highlighter is recorded, in order, in \<open>calls\<close>, so that
  the position of \<open>commit\<close> among the writes can be stated.
\<close>

type_synonym u8 = "8 word"

datatype highlighter_call = Fill u8 | Store int u8 | Commit

record ObjectHighlighter =
  objectHighlightIndices :: "u8 list"
  calls :: "highlighter_call list"

record Scene =
  objectHighlighter :: ObjectHighlighter

text \<open>\<open>objectHighlightIndices.fill(v)\<close>\<close>

definition fill :: "u8 \<Rightarrow> ObjectHighlighter \<Rightarrow> ObjectHighlighter" where
  "fill v h =
     h\<lparr>objectHighlightIndices := replicate (length (objectHighlightIndices h)) v,
       calls := calls h @ [Fill v]\<rparr>"

text \<open>\<open>objectHighlightIndices[id] = v\<close>\<close>

definition store :: "int \<Rightarrow> u8 \<Rightarrow> ObjectHighlighter \<Rightarrow> ObjectHighlighter" where
  "store i v h =
     h\<lparr>objectHighlightIndices :=
         (if 0 \<le> i \<and> nat i < length (objectHighlightIndices h)
          then (objectHighlightIndices h)[nat i := v]
          else objectHighlightIndices h),
       calls := calls h @ [Store i v]\<rparr>"

text \<open>\<open>objectHighlighter.commit()\<close>\<close>

definition commit :: "ObjectHighlighter \<Rightarrow> ObjectHighlighter" where
  "commit h = h\<lparr>calls := calls h @ [Commit]\<rparr>"

text \<open>\<open>ids.forEach((id) => (objectHighlightIndices[id] = 0))\<close>\<close>

fun forEach_show :: "int list \<Rightarrow> ObjectHighlighter \<Rightarrow> ObjectHighlighter" where
  "forEach_show [] h = h"
| "forEach_show (i # ids) h = forEach_show ids (store i 0 h)"

definition isolateObjects :: "Scene \<Rightarrow> int list \<Rightarrow> Scene" where
  "isolateObjects scene ids =
     (if length ids = 0
      then scene\<lparr>objectHighlighter := commit (fill 0 (objectHighlighter scene))\<rparr>
      else scene\<lparr>objectHighlighter :=
             commit (forEach_show ids (fill 255 (objectHighlighter scene)))\<rparr>)"

text \<open>The highlight index and the calls made, read off a scene.\<close>

abbreviation indices :: "Scene \<Rightarrow> u8 list" where
  "indices scene \<equiv> objectHighlightIndices (objectHighlighter scene)"

abbreviation calls_of :: "Scene \<Rightarrow> highlighter_call list" where
  "calls_of scene \<equiv> calls (objectHighlighter scene)"

section \<open>The search form's submit handler (src/src/main.ts, lines 40-65)\<close>

text \<open>
  The handler is an \<open>async\<close> function on a single thread. It runs from the submit event
  to its first suspension (the first \<open>await\<close> of the \<open>for await\<close> loop) without
  interruption; afterwards it is resumed once for every answer of the iterator that
  \<open>scene.search\<close> returned. Other submissions may run between two such answers. The model
  is a step function over these events.

  Every invocation of the handler creates one \<open>AbortController\<close>; controllers are numbered
  in the order of their creation, and the number also names the invocation that created it.
  \<open>aborted\<close> holds the \<open>signal.aborted\<close> flag of each controller, \<open>pending\<close> the local
  array \<open>result\<close> of every invocation that is suspended in its loop, and \<open>log\<close> the calls
  the handler has made, in order. What the search interface does with a signal is not part
  of this program: its answers are events.
\<close>

datatype handler_call =
    NewAbortController nat
  | Abort nat
  | PreventDefault
  | Search string nat
  | IsolateObjects "int list"

record app =
  searching :: bool
  scene :: "Scene option"
  aborted :: "bool list"
  pending :: "nat \<rightharpoonup> int list"
  log :: "handler_call list"

text \<open>
  The state in which \<open>main\<close> registers the handler: \<open>view.scene\<close> has been assigned the
  loaded scene (line 34) and \<open>searching\<close> is \<open>false\<close> (line 40).
\<close>

definition main_init :: "Scene \<Rightarrow> app" where
  "main_init sc =
     \<lparr>searching = False, scene = Some sc, aborted = [], pending = Map.empty, log = []\<rparr>"

text \<open>
  Lines 43-54 and, when \<open>search\<close> returns no iterator, 60-61. \<open>pattern\<close> is
  \<open>element.value\<close> of the search input; \<open>has_iterator\<close> says whether \<open>search\<close> returned
  an iterator (the test of line 54).
\<close>

definition submit :: "string \<Rightarrow> bool \<Rightarrow> app \<Rightarrow> app" where
  "submit pattern has_iterator st =
     (let c = length (aborted st);
          st1 = st\<lparr>aborted := aborted st @ [False], log := log st @ [NewAbortController c]\<rparr>;
          st2 = (if searching st1
                 then st1\<lparr>aborted := (aborted st1)[c := True], log := log st1 @ [Abort c],
                          searching := False\<rparr>
                 else st1);
          st3 = st2\<lparr>searching := True\<rparr>;
          st4 = st3\<lparr>log := log st3 @ [PreventDefault]\<rparr>
      in case scene st4 of
           None \<Rightarrow> st4
         | Some sc \<Rightarrow>
             (let st5 = st4\<lparr>log := log st4 @ [Search pattern c]\<rparr>
              in if has_iterator
                 then st5\<lparr>pending := (pending st5)(c \<mapsto> [])\<rparr>
                 else st5\<lparr>scene := Some (isolateObjects sc []),
                          log := log st5 @ [IsolateObjects []],
                          searching := False\<rparr>))"

text \<open>Lines 55-57: the iterator of invocation \<open>c\<close> yields an object; its id is pushed.\<close>

definition on_next :: "nat \<Rightarrow> int \<Rightarrow> app \<Rightarrow> app" where
  "on_next c object_id st =
     (case pending st c of
        None \<Rightarrow> st
      | Some result \<Rightarrow> st\<lparr>pending := (pending st)(c \<mapsto> result @ [object_id])\<rparr>)"

text \<open>
  Lines 60-61: the iterator of invocation \<open>c\<close> is exhausted. \<open>isolateObjects(view.scene,
  result)\<close> reads \<open>view.scene\<close> again; on \<open>undefined\<close> it throws before any write.
\<close>

definition on_done :: "nat \<Rightarrow> app \<Rightarrow> app" where
  "on_done c st =
     (case pending st c of
        None \<Rightarrow> st
      | Some result \<Rightarrow>
          (case scene st of
             None \<Rightarrow> st\<lparr>pending := (pending st)(c := None)\<rparr>
           | Some sc \<Rightarrow>
               st\<lparr>pending := (pending st)(c := None),
                  scene := Some (isolateObjects sc result),
                  log := log st @ [IsolateObjects result],
                  searching := False\<rparr>))"

text \<open>
  The iterator of invocation \<open>c\<close> throws. Nothing catches the exception: the invocation
  ends there and lines 60-61 are not reached.
\<close>

definition on_throw :: "nat \<Rightarrow> app \<Rightarrow> app" where
  "on_throw c st =
     (case pending st c of
        None \<Rightarrow> st
      | Some result \<Rightarrow> st\<lparr>pending := (pending st)(c := None)\<rparr>)"

datatype event = Submit string bool | Next nat int | Done nat | Throw nat

fun step :: "event \<Rightarrow> app \<Rightarrow> app" where
  "step (Submit pattern has_iterator) st = submit pattern has_iterator st"
| "step (Next c object_id) st = on_next c object_id st"
| "step (Done c) st = on_done c st"
| "step (Throw c) st = on_throw c st"

fun run :: "event list \<Rightarrow> app \<Rightarrow> app" where
  "run [] st = st"
| "run (e # es) st = run es (step e st)"

text \<open>The patterns handed to \<open>scene.search\<close>, in the order of the calls.\<close>

fun search_patterns :: "handler_call list \<Rightarrow> string list" where
  "search_patterns [] = []"
| "search_patterns (Search pattern c # cs) = pattern # search_patterns cs"
| "search_patterns (_ # cs) = search_patterns cs"

section \<open>The render loop (src/src/main.ts, lines 36 and 67-85)\<close>

text \<open>
  \<open>ctx\<close> is the result of \<open>canvas.getContext("bitmaprenderer")\<close>, which may be \<open>null\<close>;
  line 81 guards the transfer with \<open>ctx?.\<close>. An image bitmap is named by a number. What
  the canvas and the engine answer in one iteration is the environment of the iteration:
  the size of the canvas and the outcome of \<open>view.render()\<close> and \<open>output.getImage()\<close>.
  The loop is \<open>while (true)\<close>; the model runs one iteration for each answer it is given,
  and stops where a rejected promise ends \<open>main\<close>.
\<close>

datatype render_call =
    ApplySettings nat nat
  | Render
  | GetImage
  | TransferFromImageBitmap nat nat
  | Close nat

datatype outcome = RenderRejected | GetImageRejected | Produced "nat option"

record iteration =
  clientWidth :: nat
  clientHeight :: nat
  outcome :: outcome

text \<open>Lines 79-83.\<close>

definition finalize :: "nat option \<Rightarrow> nat option \<Rightarrow> render_call list" where
  "finalize ctx image' =
     (case image' of
        None \<Rightarrow> []
      | Some img \<Rightarrow>
          (case ctx of None \<Rightarrow> [] | Some c \<Rightarrow> [TransferFromImageBitmap c img]) @ [Close img])"

fun render_loop :: "nat option \<Rightarrow> iteration list \<Rightarrow> render_call list" where
  "render_loop ctx [] = []"
| "render_loop ctx (i # rest) =
     ApplySettings (clientWidth i) (clientHeight i) # Render #
       (case outcome i of
          RenderRejected \<Rightarrow> []
        | GetImageRejected \<Rightarrow> [GetImage]
        | Produced image' \<Rightarrow> GetImage # finalize ctx image' @ render_loop ctx rest)"

section \<open>The camera bookmark button (PositionButton)\<close>

text \<open>
  Positions and rotations are arrays of JavaScript numbers that the code only stores and
  copies, never computes with; a number is modelled as a \<open>real\<close>. The button keeps a
  reference to the camera, not a copy: the handler is given the camera as it is when the
  event arrives. \<open>camera.controller.moveTo\<close> belongs to the engine; the calls it receives
  are recorded in \<open>moveTo_calls\<close>.
\<close>

type_synonym vec3 = "real \<times> real \<times> real"
type_synonym quat = "real \<times> real \<times> real \<times> real"

record CameraController =
  moveTo_calls :: "(vec3 \<times> quat) list"

record Camera =
  position :: vec3
  rotation :: quat
  controller :: CameraController

record PositionButton =
  positionX :: real
  positionY :: real
  positionZ :: real
  rotation :: quat

record MouseEvent =
  shiftKey :: bool
  button :: int

definition moveTo :: "vec3 \<Rightarrow> quat \<Rightarrow> CameraController \<Rightarrow> CameraController" where
  "moveTo p r ctl = ctl\<lparr>moveTo_calls := moveTo_calls ctl @ [(p, r)]\<rparr>"

text \<open>The constructor (lines 10-16).\<close>

definition new_PositionButton :: PositionButton where
  "new_PositionButton =
     \<lparr>positionX = 0, positionY = 0, positionZ = 0, rotation = (0, 0, 0, 0)\<rparr>"

text \<open>The \<open>onmousedown\<close> handler that \<open>generateButton\<close> installs (lines 23-35).\<close>

definition onmousedown ::
  "MouseEvent \<Rightarrow> PositionButton \<times> Camera \<Rightarrow> PositionButton \<times> Camera" where
  "onmousedown e bc =
     (case bc of (this, camera) \<Rightarrow>
        if shiftKey e = True \<and> button e = 0
        then (let positions = position camera;
                  rotation' = Camera.rotation camera
              in (this\<lparr>rotation := rotation',
                       positionX := fst positions,
                       positionY := fst (snd positions),
                       positionZ := snd (snd positions)\<rparr>, camera))
        else if button e = 0
        then (let movePosition = (positionX this, positionY this, positionZ this)
              in (this, camera\<lparr>controller :=
                                  moveTo movePosition (rotation this) (controller camera)\<rparr>))
        else (this, camera))"

section \<open>Concrete inputs\<close>

text \<open>
  A scene of \<open>n\<close> objects on which nothing has been highlighted yet: by default every
  object is in group 0.
\<close>

definition fresh_scene :: "nat \<Rightarrow> Scene" where
  "fresh_scene n =
     \<lparr>objectHighlighter = \<lparr>objectHighlightIndices = replicate n 0, calls = []\<rparr>\<rparr>"

text \<open>
  A camera at a given pose whose controller has received no call yet, and the two mouse
  events the button distinguishes.
\<close>

definition camera_at :: "vec3 \<Rightarrow> quat \<Rightarrow> Camera" where
  "camera_at p r = \<lparr>position = p, rotation = r, controller = \<lparr>moveTo_calls = []\<rparr>\<rparr>"

definition left_click :: MouseEvent where
  "left_click = \<lparr>shiftKey = False, button = 0\<rparr>"

definition shift_left_click :: MouseEvent where
  "shift_left_click = \<lparr>shiftKey = True, button = 0\<rparr>"

section \<open>Facts about the writes of \<open>isolateObjects\<close>\<close>

lemma length_store [simp]:
  "length (objectHighlightIndices (store i v h)) = length (objectHighlightIndices h)"
  by (simp add: store_def)

lemma length_fill [simp]:
  "length (objectHighlightIndices (fill v h)) = length (objectHighlightIndices h)"
  by (simp add: fill_def)

lemma length_forEach_show [simp]:
  "length (objectHighlightIndices (forEach_show ids h)) = length (objectHighlightIndices h)"
  by (induction ids arbitrary: h) simp_all

lemma calls_forEach_show:
  "calls (forEach_show ids h) = calls h @ map (\<lambda>i. Store i 0) ids"
  by (induction ids arbitrary: h) (simp_all add: store_def)

lemma nth_store:
  "k < length (objectHighlightIndices h) \<Longrightarrow>
   objectHighlightIndices (store i v h) ! k =
     (if int k = i then v else objectHighlightIndices h ! k)"
  by (auto simp: store_def)

lemma nth_forEach_show:
  "k < length (objectHighlightIndices h) \<Longrightarrow>
   objectHighlightIndices (forEach_show ids h) ! k =
     (if int k \<in> set ids then 0 else objectHighlightIndices h ! k)"
proof (induction ids arbitrary: h)
  case Nil
  then show ?case by simp
next
  case (Cons i ids)
  have "k < length (objectHighlightIndices (store i 0 h))"
    using Cons.prems by simp
  from Cons.IH [OF this] show ?case
    using Cons.prems by (simp add: nth_store)
qed

lemma length_isolateObjects [simp]:
  "length (indices (isolateObjects sc ids)) = length (indices sc)"
  by (simp add: isolateObjects_def commit_def)

lemma nth_isolateObjects:
  assumes "k < length (indices sc)"
  shows "indices (isolateObjects sc ids) ! k =
           (if ids = [] \<or> int k \<in> set ids then 0 else 255)"
proof (cases "ids = []")
  case True
  then show ?thesis
    using assms by (simp add: isolateObjects_def commit_def fill_def)
next
  case False
  have "k < length (objectHighlightIndices (fill 255 (objectHighlighter sc)))"
    using assms by simp
  from nth_forEach_show [OF this, of ids] show ?thesis
    using False assms by (simp add: isolateObjects_def commit_def fill_def)
qed

text \<open>
  The index after \<open>isolateObjects\<close> is a function of the id list and of the length of
  the array alone: the fill overwrites whatever was there.
\<close>

lemma indices_isolateObjects:
  "indices (isolateObjects sc ids) =
     map (\<lambda>k. if ids = [] \<or> int k \<in> set ids then 0 else 255) [0 ..< length (indices sc)]"
  by (rule nth_equalityI) (simp_all add: nth_isolateObjects)

lemma calls_isolateObjects:
  "calls_of (isolateObjects sc ids) =
     calls_of sc
       @ (if ids = [] then [Fill 0] else Fill 255 # map (\<lambda>i. Store i 0) ids)
       @ [Commit]"
  by (simp add: isolateObjects_def commit_def calls_forEach_show) (simp add: fill_def)

section \<open>Facts about the submit handler\<close>

lemma scene_step: "scene st \<noteq> None \<Longrightarrow> scene (step e st) \<noteq> None"
  by (cases e)
     (auto simp: submit_def on_next_def on_done_def on_throw_def Let_def
           split: option.splits)

lemma scene_run: "scene st \<noteq> None \<Longrightarrow> scene (run es st) \<noteq> None"
proof (induction es arbitrary: st)
  case Nil
  then show ?case by simp
next
  case (Cons e es)
  from Cons.prems have "scene (step e st) \<noteq> None"
    by (rule scene_step)
  then have "scene (run es (step e st)) \<noteq> None"
    by (rule Cons.IH)
  then show ?case by simp
qed

lemma scene_reachable: "scene (run es (main_init sc)) \<noteq> None"
  by (rule scene_run) (simp add: main_init_def)

lemma search_patterns_append:
  "search_patterns (cs @ cs') = search_patterns cs @ search_patterns cs'"
  by (induction cs rule: search_patterns.induct) simp_all

lemma search_patterns_submit:
  "scene st \<noteq> None \<Longrightarrow>
   search_patterns (log (submit pattern has_iterator st)) = search_patterns (log st) @ [pattern]"
  by (auto simp: submit_def Let_def search_patterns_append split: option.splits)

text \<open>
  A submission leaves every controller created before it as it was, and aborts the one
  it has just created exactly when \<open>searching\<close> was set. No other step touches a
  controller.
\<close>

lemma aborted_submit:
  "aborted (submit pattern has_iterator st) = aborted st @ [searching st]"
  by (simp add: submit_def Let_def split: option.splits)

lemma aborted_step_prefix:
  "take (length (aborted st)) (aborted (step e st)) = aborted st"
  by (cases e) (simp_all add: aborted_submit on_next_def on_done_def on_throw_def
                  split: option.splits)

section \<open>Facts about the render loop\<close>

text \<open>
  As long as no promise is rejected, the iterations follow one another: the calls of a run
  are the calls of its iterations, in order.
\<close>

lemma render_loop_append:
  "\<forall>i \<in> set xs. \<exists>image'. outcome i = Produced image' \<Longrightarrow>
   render_loop ctx (xs @ ys) = render_loop ctx xs @ render_loop ctx ys"
  by (induction xs) auto

section \<open>Facts about the mouse handler\<close>

lemma onmousedown_capture:
  "shiftKey e \<Longrightarrow> button e = 0 \<Longrightarrow>
   onmousedown e (this, camera) =
     (this\<lparr>rotation := Camera.rotation camera,
           positionX := fst (position camera),
           positionY := fst (snd (position camera)),
           positionZ := snd (snd (position camera))\<rparr>, camera)"
  by (simp add: onmousedown_def Let_def)

lemma onmousedown_recall:
  "\<not> shiftKey e \<Longrightarrow> button e = 0 \<Longrightarrow>
   onmousedown e (this, camera) =
     (this, camera\<lparr>controller :=
        moveTo (positionX this, positionY this, positionZ this) (rotation this)
          (controller camera)\<rparr>)"
  by (simp add: onmousedown_def Let_def)

lemma onmousedown_other:
  "button e \<noteq> 0 \<Longrightarrow> onmousedown e (this, camera) = (this, camera)"
  by (simp add: onmousedown_def Let_def)

section \<open>Claims about \<open>isolateObjects\<close>\<close>

text \<open>
  C3. For every id list \<open>ids\<close> and every scene, after \<open>isolateObjects\<close>: the array keeps
  its length; if \<open>ids\<close> is empty, every entry is group 0; if \<open>ids\<close> is non-empty, every
  entry whose index is in \<open>ids\<close> is group 0 and every other entry is group 255; and the
  calls made on the highlighter are the writes (one fill, then one store per id) followed
  by one \<open>commit\<close>, which is the last call and the only \<open>commit\<close>.
\<close>

theorem isolateObjects_groups_and_commit:
  "length (indices (isolateObjects sc ids)) = length (indices sc) \<and>
   (ids = [] \<longrightarrow> (\<forall>k < length (indices sc). indices (isolateObjects sc ids) ! k = 0)) \<and>
   (ids \<noteq> [] \<longrightarrow>
      (\<forall>k < length (indices sc).
         (int k \<in> set ids \<longrightarrow> indices (isolateObjects sc ids) ! k = 0) \<and>
         (int k \<notin> set ids \<longrightarrow> indices (isolateObjects sc ids) ! k = 255))) \<and>
   calls_of (isolateObjects sc ids) =
     calls_of sc
       @ (if ids = [] then [Fill 0] else Fill 255 # map (\<lambda>i. Store i 0) ids)
       @ [Commit] \<and>
   Commit \<notin> set (if ids = [] then [Fill 0] else Fill 255 # map (\<lambda>i. Store i 0) ids)"
proof (intro conjI impI allI)
  show "length (indices (isolateObjects sc ids)) = length (indices sc)"
    by simp
next
  fix k assume "ids = []" "k < length (indices sc)"
  then show "indices (isolateObjects sc ids) ! k = 0"
    by (simp add: nth_isolateObjects)
next
  fix k assume "ids \<noteq> []" "k < length (indices sc)" "int k \<in> set ids"
  then show "indices (isolateObjects sc ids) ! k = 0"
    by (simp add: nth_isolateObjects)
next
  fix k assume "ids \<noteq> []" "k < length (indices sc)" "int k \<notin> set ids"
  then show "indices (isolateObjects sc ids) ! k = 255"
    by (simp add: nth_isolateObjects)
next
  show "calls_of (isolateObjects sc ids) =
          calls_of sc
            @ (if ids = [] then [Fill 0] else Fill 255 # map (\<lambda>i. Store i 0) ids)
            @ [Commit]"
    by (rule calls_isolateObjects)
next
  show "Commit \<notin> set (if ids = [] then [Fill 0] else Fill 255 # map (\<lambda>i. Store i 0) ids)"
    by auto
qed

theorem isolateObjects_groups_and_commit_witness:
  "indices (isolateObjects (fresh_scene 4) [1, 3, 9, -2]) ! 0 = 255 \<and>
   indices (isolateObjects (fresh_scene 4) [1, 3, 9, -2]) ! 1 = 0 \<and>
   indices (isolateObjects (fresh_scene 4) []) ! 2 = 0 \<and>
   calls_of (isolateObjects (fresh_scene 4) [1, 3, 9, -2]) =
     calls_of (fresh_scene 4) @ [Fill 255, Store 1 0, Store 3 0, Store 9 0, Store (-2) 0, Commit]"
proof -
  have len: "length (indices (fresh_scene 4)) = 4"
    by (simp add: fresh_scene_def)
  note all = isolateObjects_groups_and_commit [of "fresh_scene 4" "[1, 3, 9, -2]"]
  note some = all [THEN conjunct2, THEN conjunct2, THEN conjunct1, rule_format]
  note none = isolateObjects_groups_and_commit [of "fresh_scene 4" "[]",
      THEN conjunct2, THEN conjunct1, rule_format]
  have "indices (isolateObjects (fresh_scene 4) [1, 3, 9, -2]) ! 0 = 255"
    using some [of 0] len by simp
  moreover have "indices (isolateObjects (fresh_scene 4) [1, 3, 9, -2]) ! 1 = 0"
    using some [of 1] len by simp
  moreover have "indices (isolateObjects (fresh_scene 4) []) ! 2 = 0"
    using none [of 2] len by simp
  moreover have "calls_of (isolateObjects (fresh_scene 4) [1, 3, 9, -2]) =
     calls_of (fresh_scene 4) @ [Fill 255, Store 1 0, Store 3 0, Store 9 0, Store (-2) 0, Commit]"
    using all by simp
  ultimately show ?thesis by blast
qed

text \<open>
  C6. Calling \<open>isolateObjects\<close> twice in a row with the same id list leaves the highlight
  index as calling it once does, whatever the index held before.
\<close>

theorem isolateObjects_idempotent:
  "indices (isolateObjects (isolateObjects sc ids) ids) = indices (isolateObjects sc ids)"
  by (simp add: indices_isolateObjects)

text \<open>
  C10. After \<open>isolateObjects\<close>, whatever the id list, every entry of the highlight index
  is group 0 or group 255.
\<close>

theorem isolateObjects_only_0_or_255:
  "\<forall>g \<in> set (indices (isolateObjects sc ids)). g = 0 \<or> g = 255"
  by (auto simp: indices_isolateObjects)

theorem isolateObjects_only_0_or_255_witness:
  "indices (isolateObjects (fresh_scene 4) [1, 3]) ! 2 = 0 \<or>
   indices (isolateObjects (fresh_scene 4) [1, 3]) ! 2 = 255"
proof -
  have "indices (isolateObjects (fresh_scene 4) [1, 3]) ! 2
          \<in> set (indices (isolateObjects (fresh_scene 4) [1, 3]))"
    by (rule nth_mem) (simp add: fresh_scene_def)
  with isolateObjects_only_0_or_255 [of "fresh_scene 4" "[1, 3]"] show ?thesis
    by blast
qed

section \<open>Claims about the submit handler\<close>

text \<open>
  C1. The claim: a submission made while an earlier search A is still collecting matches
  triggers A's cancellation token before the token of the new search B is created, and
  A's ids never reach \<open>isolateObjects\<close>. The handler creates B's controller first
  (line 43) and then aborts that same controller (line 45); A's controller is never
  aborted. Evaluated on the submissions \<open>wall\<close> and \<open>door\<close>, with one match (id 7)
  collected by A in between: after B's submission A's token is not aborted and B's is, and
  when A's iterator is exhausted afterwards, A's list \<open>[7]\<close> is handed to
  \<open>isolateObjects\<close>.
\<close>

theorem supersession_aborts_new_token:
  "aborted (run [Submit ''wall'' True, Next 0 7, Submit ''door'' True]
              (main_init (fresh_scene 10))) = [False, True] \<and>
   log (run [Submit ''wall'' True, Next 0 7, Submit ''door'' True, Done 0]
          (main_init (fresh_scene 10))) =
     [NewAbortController 0, PreventDefault, Search ''wall'' 0,
      NewAbortController 1, Abort 1, PreventDefault, Search ''door'' 1,
      IsolateObjects [7]]"
  by (simp add: main_init_def submit_def on_next_def on_done_def Let_def)

text \<open>
  C2. The claim: when the consumption of the matches fails, \<open>isolateObjects\<close> is not
  called with the partial id list and the \<open>searching\<close> flag is cleared, so that a later
  submission is not blocked. The first half holds: a throwing iterator ends the invocation
  before line 60. The second does not: line 61, which clears the flag where the iterator
  ends normally or is absent, is skipped as well, and nothing else clears it. Evaluated on
  the submission \<open>wall\<close> whose iterator throws after one match (id 7): the scene is
  untouched and the only calls made are those of the submission, but \<open>searching\<close> is
  still set; the next submission, \<open>door\<close>, finds it set and hands \<open>scene.search\<close> a
  token that is already aborted.
\<close>

theorem search_failure_leaves_flag_set:
  "searching (run [Submit ''wall'' True, Next 0 7, Throw 0] (main_init (fresh_scene 10))) \<and>
   scene (run [Submit ''wall'' True, Next 0 7, Throw 0] (main_init (fresh_scene 10))) =
     Some (fresh_scene 10) \<and>
   log (run [Submit ''wall'' True, Next 0 7, Throw 0] (main_init (fresh_scene 10))) =
     [NewAbortController 0, PreventDefault, Search ''wall'' 0] \<and>
   aborted (run [Submit ''wall'' True, Next 0 7, Throw 0, Submit ''door'' True]
              (main_init (fresh_scene 10))) = [False, True] \<and>
   log (run [Submit ''wall'' True, Next 0 7, Throw 0, Submit ''door'' True]
          (main_init (fresh_scene 10))) =
     [NewAbortController 0, PreventDefault, Search ''wall'' 0,
      NewAbortController 1, Abort 1, PreventDefault, Search ''door'' 1]"
  by (simp add: main_init_def submit_def on_next_def on_throw_def Let_def)

text \<open>
  C8. In every state the program can reach, a submission hands its query text, unchanged,
  to \<open>scene.search\<close> exactly once, whatever the text is: nothing inspects the text
  before the call. The empty string is the witness.
\<close>

theorem submit_forwards_pattern:
  "search_patterns (log (submit pattern has_iterator (run es (main_init sc)))) =
     search_patterns (log (run es (main_init sc))) @ [pattern]"
  by (rule search_patterns_submit) (rule scene_reachable)

theorem submit_forwards_pattern_witness:
  "search_patterns (log (submit '''' True (main_init (fresh_scene 4)))) = ['''']"
  using submit_forwards_pattern [of "''''" True "[]" "fresh_scene 4"]
  by (simp add: main_init_def)

section \<open>Claims about the render loop\<close>

text \<open>
  C7, as stated, fails where \<open>getContext\<close> returned \<open>null\<close>: the image the engine
  returned is closed but not transferred.
\<close>

theorem display_without_context:
  "render_loop None [\<lparr>clientWidth = 800, clientHeight = 600, outcome = Produced (Some 1)\<rparr>] =
     [ApplySettings 800 600, Render, GetImage, Close 1]"
  by (simp add: finalize_def)

text \<open>
  C7, amended. In every iteration in which a frame is produced: if the engine returns an
  image and the bitmap rendering context exists, the image is transferred to it and then
  closed, once, directly after the transfer; if the engine returns an image and the
  context is \<open>null\<close>, the image is closed once and not transferred; if no image is
  returned, nothing is transferred or closed. In all three cases the loop goes on with the
  next iteration.
\<close>

theorem render_iteration_display:
  "render_loop (Some c)
     (\<lparr>clientWidth = w, clientHeight = h, outcome = Produced (Some img)\<rparr> # rest) =
     [ApplySettings w h, Render, GetImage, TransferFromImageBitmap c img, Close img]
       @ render_loop (Some c) rest \<and>
   render_loop None
     (\<lparr>clientWidth = w, clientHeight = h, outcome = Produced (Some img)\<rparr> # rest) =
     [ApplySettings w h, Render, GetImage, Close img] @ render_loop None rest \<and>
   render_loop ctx (\<lparr>clientWidth = w, clientHeight = h, outcome = Produced None\<rparr> # rest) =
     [ApplySettings w h, Render, GetImage] @ render_loop ctx rest"
  by (simp add: finalize_def)

section \<open>Claims about the camera bookmark button\<close>

text \<open>
  C4. The claim: a recall on a button on which nothing was captured calls \<open>moveTo\<close>
  with position (0,0,0) and the identity quaternion (0,0,0,1). The constructor stores the
  rotation \<open>[0,0,0,0]\<close>: the call is \<open>moveTo([0,0,0], [0,0,0,0])\<close>, and the zero
  quaternion is not the identity.
\<close>

theorem recall_without_capture_zero_quaternion:
  "moveTo_calls (controller (snd (onmousedown left_click
      (new_PositionButton, camera_at (1, 2, 3) (0, 0, 0, 1))))) = [((0, 0, 0), (0, 0, 0, 0))]
   \<and> ((0, 0, 0), (0, 0, 0, 0)) \<noteq> ((0, 0, 0), (0, 0, 0, 1 :: real))"
  by (simp add: onmousedown_def Let_def new_PositionButton_def camera_at_def left_click_def moveTo_def)

text \<open>
  C5. A capture while the camera is at pose P (shift and primary button), followed by a
  recall (primary button alone), calls \<open>moveTo\<close> once, with the position and the
  rotation of P, whatever the button held before and wherever the camera is at the time
  of the recall.
\<close>

theorem capture_then_recall:
  "moveTo_calls (controller (snd (onmousedown left_click
      (fst (onmousedown shift_left_click (this, camera)), camera')))) =
   moveTo_calls (controller camera') @ [(position camera, Camera.rotation camera)]"
  by (simp add: onmousedown_def Let_def left_click_def shift_left_click_def moveTo_def)

theorem capture_then_recall_witness:
  "moveTo_calls (controller (snd (onmousedown left_click
      (fst (onmousedown shift_left_click
              (new_PositionButton, camera_at (1, 2, 3) (0, 0, 0, 1))),
       camera_at (7, 8, 9) (1, 0, 0, 0))))) = [((1, 2, 3), (0, 0, 0, 1))]"
  using capture_then_recall [of new_PositionButton "camera_at (1, 2, 3) (0, 0, 0, 1)"
      "camera_at (7, 8, 9) (1, 0, 0, 0)"]
  by (simp add: camera_at_def)

text \<open>
  C9. One mouse event does one thing. With the primary button and shift, the stored pose
  is overwritten with the camera's and \<open>moveTo\<close> is not called (capture, no recall);
  with the primary button and no shift, \<open>moveTo\<close> is called once with the stored pose,
  which is left as it was (recall, no capture); with any other button, neither the button
  nor the camera changes.
\<close>

theorem onmousedown_capture_xor_recall:
  "(button e = 0 \<and> shiftKey e \<longrightarrow>
      fst (onmousedown e (this, camera)) =
        this\<lparr>rotation := Camera.rotation camera,
              positionX := fst (position camera),
              positionY := fst (snd (position camera)),
              positionZ := snd (snd (position camera))\<rparr> \<and>
      snd (onmousedown e (this, camera)) = camera) \<and>
   (button e = 0 \<and> \<not> shiftKey e \<longrightarrow>
      fst (onmousedown e (this, camera)) = this \<and>
      moveTo_calls (controller (snd (onmousedown e (this, camera)))) =
        moveTo_calls (controller camera)
          @ [((positionX this, positionY this, positionZ this), rotation this)]) \<and>
   (button e \<noteq> 0 \<longrightarrow> onmousedown e (this, camera) = (this, camera))"
  by (simp add: onmousedown_capture onmousedown_recall onmousedown_other moveTo_def)

theorem onmousedown_capture_xor_recall_witness:
  "onmousedown shift_left_click (new_PositionButton, camera_at (1, 2, 3) (0, 0, 0, 1)) =
     (\<lparr>positionX = 1, positionY = 2, positionZ = 3, rotation = (0, 0, 0, 1)\<rparr>,
      camera_at (1, 2, 3) (0, 0, 0, 1)) \<and>
   moveTo_calls (controller (snd (onmousedown left_click
      (\<lparr>positionX = 1, positionY = 2, positionZ = 3, rotation = (0, 0, 0, 1)\<rparr>,
       camera_at (7, 8, 9) (1, 0, 0, 0))))) = [((1, 2, 3), (0, 0, 0, 1))] \<and>
   fst (onmousedown left_click
      (\<lparr>positionX = 1, positionY = 2, positionZ = 3, rotation = (0, 0, 0, 1)\<rparr>,
       camera_at (7, 8, 9) (1, 0, 0, 0))) =
     \<lparr>positionX = 1, positionY = 2, positionZ = 3, rotation = (0, 0, 0, 1)\<rparr> \<and>
   onmousedown \<lparr>shiftKey = True, button = 2\<rparr>
      (new_PositionButton, camera_at (1, 2, 3) (0, 0, 0, 1)) =
     (new_PositionButton, camera_at (1, 2, 3) (0, 0, 0, 1))"
  using onmousedown_capture_xor_recall [of shift_left_click new_PositionButton
          "camera_at (1, 2, 3) (0, 0, 0, 1)"]
        onmousedown_capture_xor_recall [of left_click
          "\<lparr>positionX = 1, positionY = 2, positionZ = 3, rotation = (0, 0, 0, 1)\<rparr>"
          "camera_at (7, 8, 9) (1, 0, 0, 0)"]
        onmousedown_capture_xor_recall [of "\<lparr>shiftKey = True, button = 2\<rparr>"
          new_PositionButton "camera_at (1, 2, 3) (0, 0, 0, 1)"]
  by (simp add: left_click_def shift_left_click_def new_PositionButton_def camera_at_def
        prod_eq_iff)

end
